theory Spec2Isabelle
  imports Complex_Main
begin

section \<open>Bezier curves and their animator (src/index.ts)\<close>

text \<open>
  The library has one class, \<open>BezierCurve\<close>, with three static evaluators
  (\<open>linearBezier\<close>, \<open>quadraticBezier\<close>, \<open>cubicBezier\<close>) and an animation driver
  (\<open>play\<close>, \<open>stop\<close> and the handler that \<open>play\<close> connects to
  \<open>RunService.Heartbeat\<close>), and a value class \<open>BezierPositions\<close>.

  Numbers of the source (\<open>number\<close>, the components of a \<open>Vector3\<close>) are modelled as
  \<open>real\<close>: the development verifies the arithmetic the code writes down, not its
  rounding.
\<close>

subsection \<open>Vector3\<close>

text \<open>
  Modelled from the spec: the host's \<open>Vector3\<close> type is not part of the repository. The
  spec describes it as a 3D point with "vector scalar-multiplication and addition"; \<open>mul\<close>
  scales every component and \<open>add\<close> adds componentwise.
\<close>

record Vector3 =
  X :: real
  Y :: real
  Z :: real

definition Vector3_new :: "real \<Rightarrow> real \<Rightarrow> real \<Rightarrow> Vector3" where
  "Vector3_new x y z = \<lparr>X = x, Y = y, Z = z\<rparr>"

definition mul :: "Vector3 \<Rightarrow> real \<Rightarrow> Vector3" where
  "mul v s = \<lparr>X = X v * s, Y = Y v * s, Z = Z v * s\<rparr>"

definition add :: "Vector3 \<Rightarrow> Vector3 \<Rightarrow> Vector3" where
  "add v w = \<lparr>X = X v + X w, Y = Y v + Y w, Z = Z v + Z w\<rparr>"

subsection \<open>The static evaluators\<close>

text \<open>
  Each definition follows its method body: \<open>p.mul(s).add(q.mul(r))\<close> is
  \<open>add (mul p s) (mul q r)\<close>, and \<open>x ** n\<close> is \<open>x ^ n\<close>, binding tighter than the
  products around it.
\<close>

definition quadraticBezier :: "real \<Rightarrow> Vector3 \<Rightarrow> Vector3 \<Rightarrow> Vector3 \<Rightarrow> Vector3" where
  "quadraticBezier t p0 p1 p2 =
     (let oneMinusT = 1 - t
      in add (add (mul p0 (oneMinusT * oneMinusT))
                  (mul p1 (2 * oneMinusT * t)))
             (mul p2 (t * t)))"

definition linearBezier :: "real \<Rightarrow> Vector3 \<Rightarrow> Vector3 \<Rightarrow> Vector3" where
  "linearBezier t p0 p1 = add (mul p0 (1 - t)) (mul p1 t)"

definition cubicBezier ::
  "real \<Rightarrow> Vector3 \<Rightarrow> Vector3 \<Rightarrow> Vector3 \<Rightarrow> Vector3 \<Rightarrow> Vector3" where
  "cubicBezier t p0 p1 p2 p3 =
     (let oneMinusT = 1 - t
      in add (add (add (mul p0 (oneMinusT ^ 3))
                       (mul p1 (3 * oneMinusT ^ 2 * t)))
                  (mul p2 (3 * oneMinusT * t ^ 2)))
             (mul p3 (t ^ 3)))"

subsection \<open>The Bernstein blend of the specification\<close>

text \<open>
  The specification's formulas, written from its words and independently of the code: the
  point of a Bezier curve of degree \<open>n\<close> is the sum of its control points weighted by the
  Bernstein polynomials \<open>(n choose i) (1 - t)^(n - i) t^i\<close>. For the degrees 1, 2 and 3
  the weights are \<open>(1-t), t\<close>; \<open>(1-t)\<^sup>2, 2(1-t)t, t\<^sup>2\<close>; and
  \<open>(1-t)\<^sup>3, 3(1-t)\<^sup>2t, 3(1-t)t\<^sup>2, t\<^sup>3\<close>.
\<close>

definition bernstein :: "nat \<Rightarrow> nat \<Rightarrow> real \<Rightarrow> real" where
  "bernstein n i t = real (n choose i) * (1 - t) ^ (n - i) * t ^ i"

definition blend_coord :: "(Vector3 \<Rightarrow> real) \<Rightarrow> real \<Rightarrow> Vector3 list \<Rightarrow> real" where
  "blend_coord c t ps =
     (\<Sum>i \<leftarrow> [0..<length ps]. c (ps ! i) * bernstein (length ps - 1) i t)"

definition bernstein_blend :: "real \<Rightarrow> Vector3 list \<Rightarrow> Vector3" where
  "bernstein_blend t ps =
     \<lparr>X = blend_coord X t ps, Y = blend_coord Y t ps, Z = blend_coord Z t ps\<rparr>"

definition spec_linear :: "real \<Rightarrow> Vector3 \<Rightarrow> Vector3 \<Rightarrow> Vector3" where
  "spec_linear t p0 p1 =
     \<lparr>X = X p0 * (1 - t) + X p1 * t,
      Y = Y p0 * (1 - t) + Y p1 * t,
      Z = Z p0 * (1 - t) + Z p1 * t\<rparr>"

definition spec_quadratic :: "real \<Rightarrow> Vector3 \<Rightarrow> Vector3 \<Rightarrow> Vector3 \<Rightarrow> Vector3" where
  "spec_quadratic t p0 p1 p2 =
     \<lparr>X = X p0 * (1 - t)\<^sup>2 + X p1 * (2 * (1 - t) * t) + X p2 * t\<^sup>2,
      Y = Y p0 * (1 - t)\<^sup>2 + Y p1 * (2 * (1 - t) * t) + Y p2 * t\<^sup>2,
      Z = Z p0 * (1 - t)\<^sup>2 + Z p1 * (2 * (1 - t) * t) + Z p2 * t\<^sup>2\<rparr>"

definition spec_cubic ::
  "real \<Rightarrow> Vector3 \<Rightarrow> Vector3 \<Rightarrow> Vector3 \<Rightarrow> Vector3 \<Rightarrow> Vector3" where
  "spec_cubic t p0 p1 p2 p3 =
     \<lparr>X = X p0 * (1 - t) ^ 3 + X p1 * (3 * (1 - t)\<^sup>2 * t)
            + X p2 * (3 * (1 - t) * t\<^sup>2) + X p3 * t ^ 3,
      Y = Y p0 * (1 - t) ^ 3 + Y p1 * (3 * (1 - t)\<^sup>2 * t)
            + Y p2 * (3 * (1 - t) * t\<^sup>2) + Y p3 * t ^ 3,
      Z = Z p0 * (1 - t) ^ 3 + Z p1 * (3 * (1 - t)\<^sup>2 * t)
            + Z p2 * (3 * (1 - t) * t\<^sup>2) + Z p3 * t ^ 3\<rparr>"

subsection \<open>math.clamp\<close>

text \<open>
  Modelled from the spec: \<open>math.clamp\<close> belongs to the host's runtime. The spec writes
  \<open>t := clamp(t + dt/duration, 0, 1)\<close>: a value below the lower bound gives the lower
  bound, a value above the upper bound gives the upper bound, any other value is returned
  as it is.
\<close>

definition math_clamp :: "real \<Rightarrow> real \<Rightarrow> real \<Rightarrow> real" where
  "math_clamp x lo hi = (if x < lo then lo else if hi < x then hi else x)"

subsection \<open>BezierPositions and the fields of BezierCurve\<close>

text \<open>
  An optional field (\<open>p2?: Vector3\<close>) is a \<open>Vector3 option\<close>, \<open>undefined\<close> being
  \<open>None\<close>. A \<open>Vector3\<close> and a connection are objects, so a field holding one is truthy
  exactly when it is not \<open>undefined\<close>.
\<close>

record BezierPositions =
  p0 :: Vector3
  p1 :: Vector3
  p2 :: "Vector3 option"
  p3 :: "Vector3 option"

definition BezierPositions_new ::
  "Vector3 \<Rightarrow> Vector3 \<Rightarrow> Vector3 option \<Rightarrow> Vector3 option \<Rightarrow> BezierPositions" where
  "BezierPositions_new a b c d = \<lparr>p0 = a, p1 = b, p2 = c, p3 = d\<rparr>"

text \<open>A connection handle is identified by a number, given out by the signal.\<close>

type_synonym RBXScriptConnection = nat

record BezierCurve =
  p0 :: Vector3
  p1 :: Vector3
  p2 :: "Vector3 option"
  p3 :: "Vector3 option"
  t :: real
  duration :: real
  position :: Vector3
  connection :: "RBXScriptConnection option"
  wantToStop :: bool

text \<open>
  The constructor, after the field initialisers (\<open>t = 0\<close>, \<open>connection = undefined\<close>,
  \<open>wantToStop = false\<close>; the initial \<open>duration = 1\<close> and \<open>position = Vector3.zero\<close> are
  overwritten by the constructor's body).
\<close>

definition BezierCurve_new :: "real \<Rightarrow> BezierPositions \<Rightarrow> BezierCurve" where
  "BezierCurve_new d positions =
     \<lparr>p0 = BezierPositions.p0 positions,
      p1 = BezierPositions.p1 positions,
      p2 = BezierPositions.p2 positions,
      p3 = BezierPositions.p3 positions,
      t = 0,
      duration = d,
      position = BezierPositions.p0 positions,
      connection = None,
      wantToStop = False\<rparr>"

subsection \<open>The tick source and the observable effects\<close>

text \<open>
  Modelled from the spec: \<open>RunService.Heartbeat\<close> is the host's tick source, "modeled as
  \<open>subscribe(handler) -> SubscriptionHandle\<close>, \<open>unsubscribe(handle)\<close>". The signal is
  the list of its live connections, each with the handler it was connected with. The only
  handler this library connects is the closure created in \<open>play\<close>, which captures the
  animator and the \<open>callback\<close> argument of that call, so a handler is represented by the
  callback it captured. Callbacks are opaque values of a type \<open>'cb\<close>; calling one is
  recorded in the trace, together with every \<open>Connect\<close> and \<open>Disconnect\<close>, in the order
  in which they happen. A callback is taken not to call back into the animator.
\<close>

datatype 'cb effect =
    Connected RBXScriptConnection "'cb option"
  | Disconnected RBXScriptConnection
  | Called 'cb bool

record 'cb world =
  curve :: BezierCurve
  heartbeat :: "(RBXScriptConnection \<times> 'cb option) list"
  next_connection :: nat
  trace :: "'cb effect list"

definition Connect :: "'cb option \<Rightarrow> 'cb world \<Rightarrow> RBXScriptConnection \<times> 'cb world" where
  "Connect callback w =
     (let c = next_connection w
      in (c, w\<lparr>heartbeat := heartbeat w @ [(c, callback)],
                next_connection := Suc c,
                trace := trace w @ [Connected c callback]\<rparr>))"

definition Disconnect :: "RBXScriptConnection \<Rightarrow> 'cb world \<Rightarrow> 'cb world" where
  "Disconnect c w =
     w\<lparr>heartbeat := filter (\<lambda>h. fst h \<noteq> c) (heartbeat w),
       trace := trace w @ [Disconnected c]\<rparr>"

text \<open>\<open>if (callback) callback(flag)\<close>: an absent callback is skipped.\<close>

definition invoke :: "'cb option \<Rightarrow> bool \<Rightarrow> 'cb world \<Rightarrow> 'cb world" where
  "invoke callback flag w =
     (case callback of
        None \<Rightarrow> w
      | Some f \<Rightarrow> w\<lparr>trace := trace w @ [Called f flag]\<rparr>)"

subsection \<open>The handler connected by play\<close>

text \<open>
  Line 42: \<open>this.t = math.clamp(this.t + dt / this.duration, 0, 1)\<close>. The quotient is the
  quotient of the reals; it is the code's only for a duration other than zero (a
  duration is a positive number of seconds), so a theorem that states the value of the
  quotient assumes a positive duration.
\<close>

definition advance :: "real \<Rightarrow> BezierCurve \<Rightarrow> BezierCurve" where
  "advance dt this = this\<lparr>t := math_clamp (t this + dt / duration this) 0 1\<rparr>"

text \<open>
  Lines 44 to 57: three independent conditionals, in the source's order (linear, cubic,
  quadratic), each reading the fields as they are when the handler runs.
\<close>

definition reposition :: "BezierCurve \<Rightarrow> BezierCurve" where
  "reposition this =
     (let this =
            (if p2 this = None \<and> p3 this = None
             then this\<lparr>position := linearBezier (t this) (p0 this) (p1 this)\<rparr>
             else this);
          this =
            (case (p2 this, p3 this) of
               (Some c, Some d) \<Rightarrow>
                 this\<lparr>position := cubicBezier (t this) (p0 this) (p1 this) c d\<rparr>
             | _ \<Rightarrow> this);
          this =
            (case (p2 this, p3 this) of
               (Some c, None) \<Rightarrow>
                 this\<lparr>position := quadraticBezier (t this) (p0 this) (p1 this) c\<rparr>
             | _ \<Rightarrow> this)
      in this)"

text \<open>
  Lines 59 to 68: when the run is over, \<open>this.connection?.Disconnect()\<close>, then
  \<open>this.connection = undefined\<close>, then the callback.
\<close>

definition finish :: "'cb option \<Rightarrow> 'cb world \<Rightarrow> 'cb world" where
  "finish callback w =
     (if 1 \<le> t (curve w) \<or> wantToStop (curve w)
      then let w = (case connection (curve w) of
                      None \<Rightarrow> w
                    | Some c \<Rightarrow> Disconnect c w);
               w = w\<lparr>curve := (curve w)\<lparr>connection := None\<rparr>\<rparr>
           in if wantToStop (curve w)
              then invoke callback False w
              else invoke callback True w
      else w)"

definition handler :: "'cb option \<Rightarrow> real \<Rightarrow> 'cb world \<Rightarrow> 'cb world" where
  "handler callback dt w =
     finish callback (w\<lparr>curve := reposition (advance dt (curve w))\<rparr>)"

subsection \<open>play and stop\<close>

definition play :: "'cb option \<Rightarrow> 'cb world \<Rightarrow> 'cb world" where
  "play callback w =
     (if connection (curve w) \<noteq> None then w
      else let w = w\<lparr>curve := (curve w)\<lparr>t := 0\<rparr>\<rparr>;
               (c, w) = Connect callback w
           in w\<lparr>curve := (curve w)\<lparr>connection := Some c\<rparr>\<rparr>)"

definition stop :: "'cb world \<Rightarrow> 'cb world" where
  "stop w = w\<lparr>curve := (curve w)\<lparr>wantToStop := True\<rparr>\<rparr>"

subsection \<open>The host: construction, calls and ticks\<close>

text \<open>
  Modelled from the spec: the host's loop is outside the repository; the spec has it invoke
  the handler "once per frame" while the subscription exists. A tick fires the signal:
  every connection that is live when the tick starts has its handler run with the elapsed
  time, unless it was disconnected earlier in the same tick. \<open>boot\<close> is the world right
  after \<open>new BezierCurve(d, positions)\<close>, and \<open>run\<close> performs a sequence of calls and
  ticks, so the reachable states are those of the form \<open>run cs (boot d positions)\<close>.
\<close>

definition fire :: "real \<Rightarrow> 'cb world \<Rightarrow> 'cb world" where
  "fire dt w =
     fold (\<lambda>h w. if h \<in> set (heartbeat w) then handler (snd h) dt w else w)
          (heartbeat w) w"

definition boot :: "real \<Rightarrow> BezierPositions \<Rightarrow> 'cb world" where
  "boot d positions =
     \<lparr>curve = BezierCurve_new d positions, heartbeat = [], next_connection = 0, trace = []\<rparr>"

datatype 'cb call = Play "'cb option" | Stop | Heartbeat real

fun apply_call :: "'cb call \<Rightarrow> 'cb world \<Rightarrow> 'cb world" where
  "apply_call (Play callback) w = play callback w"
| "apply_call Stop w = stop w"
| "apply_call (Heartbeat dt) w = fire dt w"

fun run :: "'cb call list \<Rightarrow> 'cb world \<Rightarrow> 'cb world" where
  "run [] w = w"
| "run (c # cs) w = run cs (apply_call c w)"

fun is_Heartbeat :: "'cb call \<Rightarrow> bool" where
  "is_Heartbeat (Heartbeat dt) = True"
| "is_Heartbeat _ = False"

subsection \<open>The selection table and the shape of a trace, from the specification\<close>

text \<open>
  The specification's selection table, from its words: the evaluator is chosen by the
  control points present, and no evaluator matches when \<open>p2\<close> is absent and \<open>p3\<close>
  present.
\<close>

fun spec_select ::
  "Vector3 option \<Rightarrow> Vector3 option \<Rightarrow> real \<Rightarrow> Vector3 \<Rightarrow> Vector3 \<Rightarrow> Vector3 option" where
  "spec_select None None u a b = Some (linearBezier u a b)"
| "spec_select (Some c) None u a b = Some (quadraticBezier u a b c)"
| "spec_select (Some c) (Some d) u a b = Some (cubicBezier u a b c d)"
| "spec_select None (Some d) u a b = None"

text \<open>
  The life cycle the specification gives a trace: every subscription is followed, once its
  run has ended, by its own release and then by one call of the callback it was created
  with (none if no callback was supplied); nothing else is ever called. \<open>finished\<close>
  accepts the traces in which every run has ended, \<open>lifecycle\<close> also those whose last run
  is still going.
\<close>

fun finished :: "'cb effect list \<Rightarrow> bool" where
  "finished [] = True"
| "finished (Connected c None # Disconnected c' # es) = (c = c' \<and> finished es)"
| "finished (Connected c (Some f) # Disconnected c' # Called g flag # es) =
     (c = c' \<and> f = g \<and> finished es)"
| "finished es = False"

fun lifecycle :: "'cb effect list \<Rightarrow> bool" where
  "lifecycle [] = True"
| "lifecycle [Connected c callback] = True"
| "lifecycle (Connected c None # Disconnected c' # es) = (c = c' \<and> lifecycle es)"
| "lifecycle (Connected c (Some f) # Disconnected c' # Called g flag # es) =
     (c = c' \<and> f = g \<and> lifecycle es)"
| "lifecycle es = False"


subsection \<open>Invariants of the reachable states\<close>

text \<open>
  \<open>tracked\<close> ties the animator to the signal and to the trace: an idle animator has no
  live connection and only ended runs behind it; a running one has exactly its own
  connection live, and the trace ends with that subscription after ended runs.
\<close>

definition tracked :: "'cb world \<Rightarrow> bool" where
  "tracked w =
     (case connection (curve w) of
        None \<Rightarrow> heartbeat w = [] \<and> finished (trace w)
      | Some c \<Rightarrow>
          (case heartbeat w of
             [h] \<Rightarrow> fst h = c \<and> trace w \<noteq> [] \<and> last (trace w) = Connected c (snd h)
                    \<and> finished (butlast (trace w))
           | _ \<Rightarrow> False))"

definition unit_t :: "'cb world \<Rightarrow> bool" where
  "unit_t w = (0 \<le> t (curve w) \<and> t (curve w) \<le> 1)"

subsection \<open>The scenarios of the specification\<close>

text \<open>
  The specification's scenario: duration 1, \<open>p0 = (0,0,0)\<close>, \<open>p1 = (0,50,0)\<close>, and a
  set of positions with \<open>p3\<close> but no \<open>p2\<close>.
\<close>

definition scenario_positions :: BezierPositions where
  "scenario_positions = BezierPositions_new (Vector3_new 0 0 0) (Vector3_new 0 50 0) None None"

definition lopsided_positions :: BezierPositions where
  "lopsided_positions =
     BezierPositions_new (Vector3_new 0 0 0) (Vector3_new 0 50 0) None (Some (Vector3_new 9 9 9))"

section \<open>The evaluators\<close>

lemma upt_2: "[0..<2] = [0, Suc 0]"
  by (simp add: upt_rec)

lemma upt_3: "[0..<3] = [0, Suc 0, 2]"
  by (simp add: upt_rec)

lemma upt_4: "[0..<4] = [0, Suc 0, 2, 3]"
  by (simp add: upt_rec)

lemma choose_3_2: "(3::nat) choose 2 = 3"
  by (simp add: numeral_3_eq_3 numeral_2_eq_2)

lemma spec_linear_bernstein: "spec_linear u a b = bernstein_blend u [a, b]"
  by (simp add: spec_linear_def bernstein_blend_def blend_coord_def bernstein_def upt_2)

lemma spec_quadratic_bernstein:
  "spec_quadratic u a b c = bernstein_blend u [a, b, c]"
  by (simp add: spec_quadratic_def bernstein_blend_def blend_coord_def bernstein_def upt_3
      power2_eq_square algebra_simps)

lemma spec_cubic_bernstein:
  "spec_cubic u a b c d = bernstein_blend u [a, b, c, d]"
  by (simp add: spec_cubic_def bernstein_blend_def blend_coord_def bernstein_def upt_4
      choose_3_2 power2_eq_square power3_eq_cube algebra_simps)

text \<open>
  C4. For every \<open>t\<close> and all points, the three static evaluators compute the standard
  Bernstein blends: \<open>linearBezier(t,p0,p1) = p0(1-t) + p1 t\<close>,
  \<open>quadraticBezier(t,p0,p1,p2) = p0(1-t)\<^sup>2 + p1 2(1-t)t + p2 t\<^sup>2\<close> and
  \<open>cubicBezier(t,p0,p1,p2,p3) = p0(1-t)\<^sup>3 + p1 3(1-t)\<^sup>2t + p2 3(1-t)t\<^sup>2 + p3 t\<^sup>3\<close>.
  The code of each evaluator is compared with the formula written from the specification.
\<close>

theorem evaluators_are_bernstein_blends:
  "linearBezier u a b = spec_linear u a b
   \<and> quadraticBezier u a b c = spec_quadratic u a b c
   \<and> cubicBezier u a b c d = spec_cubic u a b c d"
  by (simp add: linearBezier_def quadraticBezier_def cubicBezier_def spec_linear_def
      spec_quadratic_def spec_cubic_def add_def mul_def power2_eq_square Let_def)

text \<open>
  C5. Each evaluator interpolates its endpoints exactly: at \<open>t = 0\<close> it returns \<open>p0\<close>, and at
  \<open>t = 1\<close> it returns its last control point (\<open>p1\<close> for the linear, \<open>p2\<close> for the
  quadratic, \<open>p3\<close> for the cubic evaluator).
\<close>

theorem evaluators_interpolate_endpoints:
  "linearBezier 0 a b = a \<and> linearBezier 1 a b = b
   \<and> quadraticBezier 0 a b c = a \<and> quadraticBezier 1 a b c = c
   \<and> cubicBezier 0 a b c d = a \<and> cubicBezier 1 a b c d = d"
  by (simp add: linearBezier_def quadraticBezier_def cubicBezier_def add_def mul_def Let_def)


section \<open>One tick of the handler\<close>

text \<open>
  The claims about a tick are stated for \<open>handler\<close>, the closure that \<open>play\<close> connects.
  In a state reachable from the constructor a running animator has exactly its own
  connection on the signal (\<open>tracked\<close>), so there a tick of the host is one run of that
  handler (\<open>fire_running\<close>), and a tick of an idle animator does nothing (\<open>fire_idle\<close>).
\<close>

lemma math_clamp_unit: "0 \<le> math_clamp x 0 1 \<and> math_clamp x 0 1 \<le> 1"
  by (simp add: math_clamp_def)

lemma reposition_eq:
  "reposition a =
     a\<lparr>position := (case spec_select (p2 a) (p3 a) (t a) (p0 a) (p1 a) of
                       Some v \<Rightarrow> v | None \<Rightarrow> position a)\<rparr>"
  by (cases "p2 a"; cases "p3 a") (simp_all add: reposition_def)

lemma reposition_fields [simp]:
  "p0 (reposition a) = p0 a" "p1 (reposition a) = p1 a" "p2 (reposition a) = p2 a"
  "p3 (reposition a) = p3 a" "t (reposition a) = t a" "duration (reposition a) = duration a"
  "connection (reposition a) = connection a" "wantToStop (reposition a) = wantToStop a"
  by (simp_all add: reposition_eq)

lemma advance_fields [simp]:
  "p0 (advance dt a) = p0 a" "p1 (advance dt a) = p1 a" "p2 (advance dt a) = p2 a"
  "p3 (advance dt a) = p3 a" "duration (advance dt a) = duration a"
  "position (advance dt a) = position a"
  "connection (advance dt a) = connection a" "wantToStop (advance dt a) = wantToStop a"
  "t (advance dt a) = math_clamp (t a + dt / duration a) 0 1"
  by (simp_all add: advance_def)

lemma handler_continues:
  assumes "\<not> (1 \<le> math_clamp (t (curve w) + dt / duration (curve w)) 0 1 \<or> wantToStop (curve w))"
  shows "handler callback dt w = w\<lparr>curve := reposition (advance dt (curve w))\<rparr>"
  using assms by (simp add: handler_def finish_def)

lemma handler_ends:
  assumes "1 \<le> math_clamp (t (curve w) + dt / duration (curve w)) 0 1 \<or> wantToStop (curve w)"
    and "connection (curve w) = Some c"
  shows "handler callback dt w =
           w\<lparr>curve := (reposition (advance dt (curve w)))\<lparr>connection := None\<rparr>,
             heartbeat := filter (\<lambda>h. fst h \<noteq> c) (heartbeat w),
             trace := trace w @ Disconnected c #
               (case callback of None \<Rightarrow> [] | Some f \<Rightarrow> [Called f (\<not> wantToStop (curve w))])\<rparr>"
  using assms
  by (cases callback) (auto simp add: handler_def finish_def Disconnect_def invoke_def Let_def)

lemma handler_curve:
  "curve (handler callback dt w) =
     (reposition (advance dt (curve w)))
       \<lparr>connection :=
          (if 1 \<le> math_clamp (t (curve w) + dt / duration (curve w)) 0 1 \<or> wantToStop (curve w)
           then None else connection (curve w))\<rparr>"
  by (cases callback; cases "connection (curve w)")
     (simp_all add: handler_def finish_def invoke_def Disconnect_def Let_def)

lemma handler_t:
  "t (curve (handler callback dt w)) = math_clamp (t (curve w) + dt / duration (curve w)) 0 1"
  by (cases callback) (simp_all add: handler_def finish_def invoke_def Disconnect_def Let_def
      split: option.splits)

lemma handler_position:
  "position (curve (handler callback dt w)) = position (reposition (advance dt (curve w)))"
  by (cases callback) (simp_all add: handler_def finish_def invoke_def Disconnect_def Let_def
      split: option.splits)

lemma handler_fields [simp]:
  "p0 (curve (handler callback dt w)) = p0 (curve w)"
  "p1 (curve (handler callback dt w)) = p1 (curve w)"
  "p2 (curve (handler callback dt w)) = p2 (curve w)"
  "p3 (curve (handler callback dt w)) = p3 (curve w)"
  "duration (curve (handler callback dt w)) = duration (curve w)"
  "wantToStop (curve (handler callback dt w)) = wantToStop (curve w)"
  by (simp_all add: handler_curve)


lemmas model_defs =
  boot_def BezierCurve_new_def BezierPositions_new_def Vector3_new_def scenario_positions_def
  lopsided_positions_def play_def stop_def fire_def handler_def finish_def reposition_def
  advance_def math_clamp_def Connect_def Disconnect_def invoke_def linearBezier_def add_def
  mul_def Let_def

text \<open>
  C3. On every tick the evaluator is selected from the control points present when the tick
  runs: without \<open>p2\<close> and \<open>p3\<close> the position becomes \<open>linearBezier\<close> of \<open>p0, p1\<close>; with
  \<open>p2\<close> and without \<open>p3\<close> it becomes \<open>quadraticBezier\<close> of \<open>p0, p1, p2\<close>; with both
  it becomes \<open>cubicBezier\<close> of \<open>p0, p1, p2, p3\<close>, each at the \<open>t\<close> the tick has just set;
  with \<open>p3\<close> but without \<open>p2\<close> no evaluator matches and the position stays as it was.
  The handler's three conditionals are compared with the specification's table
  \<open>spec_select\<close>; the tick leaves \<open>p2\<close> and \<open>p3\<close> as they are.
\<close>

theorem evaluator_selected_each_tick:
  "position (curve (handler callback dt w)) =
     (case spec_select (p2 (curve w)) (p3 (curve w)) (t (curve (handler callback dt w)))
             (p0 (curve w)) (p1 (curve w)) of
        Some v \<Rightarrow> v
      | None \<Rightarrow> position (curve w))
   \<and> p2 (curve (handler callback dt w)) = p2 (curve w)
   \<and> p3 (curve (handler callback dt w)) = p3 (curve w)"
  by (simp add: handler_curve reposition_eq split: option.split)

text \<open>The specification's first scenario: four ticks of a quarter of a second.\<close>

lemma scenario_four_ticks:
  "map (\<lambda>n. t (curve (run (Play (Some ''done'') # replicate n (Heartbeat (1/4)))
          (boot 1 scenario_positions)))) [1, 2, 3, 4] = [1/4, 1/2, 3/4, 1]
   \<and> map (\<lambda>n. position (curve (run (Play (Some ''done'') # replicate n (Heartbeat (1/4)))
          (boot 1 scenario_positions)))) [1, 2, 3, 4]
       = [Vector3_new 0 (25/2) 0, Vector3_new 0 25 0, Vector3_new 0 (75/2) 0, Vector3_new 0 50 0]
   \<and> trace (run (Play (Some ''done'') # replicate 3 (Heartbeat (1/4))) (boot 1 scenario_positions))
       = [Connected 0 (Some ''done'')]
   \<and> trace (run (Play (Some ''done'') # replicate 4 (Heartbeat (1/4))) (boot 1 scenario_positions))
       = [Connected 0 (Some ''done''), Disconnected 0, Called ''done'' True]"
  by (simp add: model_defs numeral_eq_Suc)

section \<open>Calls and ticks from the constructed animator\<close>

lemma play_idle:
  assumes "connection (curve w) = None"
  shows "play callback w =
           w\<lparr>curve := (curve w)\<lparr>t := 0, connection := Some (next_connection w)\<rparr>,
             heartbeat := heartbeat w @ [(next_connection w, callback)],
             next_connection := Suc (next_connection w),
             trace := trace w @ [Connected (next_connection w) callback]\<rparr>"
  using assms by (simp add: play_def Connect_def Let_def)

lemma play_running:
  assumes "connection (curve w) = Some c"
  shows "play callback w = w"
  using assms by (simp add: play_def)

lemma play_position: "position (curve (play callback w)) = position (curve w)"
  by (simp add: play_def Connect_def Let_def)

lemma stop_position: "position (curve (stop w)) = position (curve w)"
  by (simp add: stop_def)

lemma fire_idle: "heartbeat w = [] \<Longrightarrow> fire dt w = w"
  by (simp add: fire_def)

lemma fire_running: "heartbeat w = [(c, callback)] \<Longrightarrow> fire dt w = handler callback dt w"
  by (simp add: fire_def)

lemma fire_fields:
  "p0 (curve (fire dt w)) = p0 (curve w) \<and> p1 (curve (fire dt w)) = p1 (curve w)
   \<and> p2 (curve (fire dt w)) = p2 (curve w) \<and> p3 (curve (fire dt w)) = p3 (curve w)
   \<and> duration (curve (fire dt w)) = duration (curve w)"
proof -
  have "p0 (curve (fold (\<lambda>h w. if h \<in> set (heartbeat w) then handler (snd h) dt w else w) hs w)) = p0 (curve w)
    \<and> p1 (curve (fold (\<lambda>h w. if h \<in> set (heartbeat w) then handler (snd h) dt w else w) hs w)) = p1 (curve w)
    \<and> p2 (curve (fold (\<lambda>h w. if h \<in> set (heartbeat w) then handler (snd h) dt w else w) hs w)) = p2 (curve w)
    \<and> p3 (curve (fold (\<lambda>h w. if h \<in> set (heartbeat w) then handler (snd h) dt w else w) hs w)) = p3 (curve w)
    \<and> duration (curve (fold (\<lambda>h w. if h \<in> set (heartbeat w) then handler (snd h) dt w else w) hs w)) = duration (curve w)"
    for hs
    by (induction hs arbitrary: w) simp_all
  then show ?thesis by (simp add: fire_def)
qed

lemma apply_call_fields:
  "p0 (curve (apply_call c w)) = p0 (curve w) \<and> p1 (curve (apply_call c w)) = p1 (curve w)
   \<and> p2 (curve (apply_call c w)) = p2 (curve w) \<and> p3 (curve (apply_call c w)) = p3 (curve w)
   \<and> duration (curve (apply_call c w)) = duration (curve w)"
  by (cases c) (simp_all add: fire_fields play_def stop_def Connect_def Let_def)

lemma run_fields:
  "p0 (curve (run cs w)) = p0 (curve w) \<and> p1 (curve (run cs w)) = p1 (curve w)
   \<and> p2 (curve (run cs w)) = p2 (curve w) \<and> p3 (curve (run cs w)) = p3 (curve w)
   \<and> duration (curve (run cs w)) = duration (curve w)"
  by (induction cs arbitrary: w) (simp_all add: apply_call_fields)

lemma unit_t_fire: "unit_t w \<Longrightarrow> unit_t (fire dt w)"
proof -
  have "unit_t w \<Longrightarrow>
        unit_t (fold (\<lambda>h w. if h \<in> set (heartbeat w) then handler (snd h) dt w else w) hs w)"
    for hs
    by (induction hs arbitrary: w) (simp_all add: unit_t_def handler_t math_clamp_unit)
  then show "unit_t w \<Longrightarrow> unit_t (fire dt w)" by (simp add: fire_def)
qed

lemma unit_t_apply_call: "unit_t w \<Longrightarrow> unit_t (apply_call c w)"
  by (cases c) (simp_all add: unit_t_fire, simp_all add: unit_t_def play_def stop_def Connect_def Let_def)

lemma unit_t_run: "unit_t w \<Longrightarrow> unit_t (run cs w)"
  by (induction cs arbitrary: w) (simp_all add: unit_t_apply_call)

lemma unit_t_boot: "unit_t (boot d ps)"
  by (simp add: unit_t_def boot_def BezierCurve_new_def)


text \<open>
  C6. On each tick with elapsed time \<open>dt\<close> the animator sets \<open>t\<close> to
  \<open>clamp(t + dt/duration, 0, 1)\<close>. Hence in every state reachable from the constructor,
  for a positive duration and ticks whose elapsed times are not negative, \<open>t\<close> lies between
  0 and 1; and \<open>t\<close> is 0 when a run starts (after a \<open>play\<close> made while idle) and after
  construction.
\<close>

theorem progress_clamped_to_unit_interval:
  "(0 < duration (curve w) \<longrightarrow>
      t (curve (handler callback dt w)) = math_clamp (t (curve w) + dt / duration (curve w)) 0 1)
   \<and> (0 < d \<and> (\<forall>c \<in> set cs. \<forall>dt. c = Heartbeat dt \<longrightarrow> 0 \<le> dt) \<longrightarrow>
        0 \<le> t (curve (run cs (boot d ps))) \<and> t (curve (run cs (boot d ps))) \<le> 1)
   \<and> (connection (curve w) = None \<longrightarrow> t (curve (play callback w)) = 0)
   \<and> t (curve (boot d ps)) = 0"
proof (intro conjI impI)
  show "t (curve (handler callback dt w)) = math_clamp (t (curve w) + dt / duration (curve w)) 0 1"
    by (rule handler_t)
next
  have "unit_t (run cs (boot d ps))" by (intro unit_t_run unit_t_boot)
  then show "0 \<le> t (curve (run cs (boot d ps)))" "t (curve (run cs (boot d ps))) \<le> 1"
    by (simp_all add: unit_t_def)
next
  assume "connection (curve w) = None"
  then show "t (curve (play callback w)) = 0" by (simp add: play_idle)
next
  show "t (curve (boot d ps)) = 0" by (simp add: boot_def BezierCurve_new_def)
qed

theorem progress_clamped_to_unit_interval_witness:
  "t (curve (handler (Some ''done'') (3/4)
        (run [Play (Some ''done''), Heartbeat (1/2)] (boot 1 scenario_positions)))) = 1
   \<and> t (curve (run [Play (Some ''done''), Heartbeat (1/2), Heartbeat (3/4)]
          (boot 1 scenario_positions))) = 1
   \<and> connection (curve (boot 1 scenario_positions)) = None
   \<and> t (curve (run [Play (Some ''done''), Heartbeat (1/2), Heartbeat (3/4), Play (Some ''again'')]
          (boot 1 scenario_positions))) = 0"
  using progress_clamped_to_unit_interval [of
      "run [Play (Some ''done''), Heartbeat (1/2)] (boot 1 scenario_positions)"
      "Some ''done''" "3/4" 1 "[Play (Some ''done''), Heartbeat (1/2), Heartbeat (3/4)]"
      scenario_positions]
    progress_clamped_to_unit_interval [of
      "run [Play (Some ''done''), Heartbeat (1/2), Heartbeat (3/4)] (boot 1 scenario_positions)"
      "Some ''again''"]
  by (simp add: model_defs)

text \<open>
  C7. Calling \<open>play\<close> while the animator is running (it holds a connection) changes nothing:
  the world after the call is the world before it, so there is no second subscription, \<open>t\<close>
  is not reset, the handler connected by the first \<open>play\<close> keeps its callback, and every
  field of the animator is as it was.
\<close>

theorem play_while_running_is_noop:
  "connection (curve w) \<noteq> None \<Longrightarrow> play callback w = w"
  by (simp add: play_def)

theorem play_while_running_is_noop_witness:
  "connection (curve (run [Play (Some ''first''), Heartbeat (1/4)] (boot 1 scenario_positions)))
     = Some 0
   \<and> play (Some ''second'')
        (run [Play (Some ''first''), Heartbeat (1/4)] (boot 1 scenario_positions))
     = \<lparr>curve = \<lparr>p0 = Vector3_new 0 0 0, p1 = Vector3_new 0 50 0, p2 = None, p3 = None,
                  t = 1/4, duration = 1, position = Vector3_new 0 (25/2) 0,
                  connection = Some 0, wantToStop = False\<rparr>,
         heartbeat = [(0, Some ''first'')], next_connection = 1,
         trace = [Connected 0 (Some ''first'')]\<rparr>"
  using play_while_running_is_noop [of
      "run [Play (Some ''first''), Heartbeat (1/4)] (boot 1 scenario_positions)" "Some ''second''"]
  by (simp add: model_defs)

text \<open>
  C10. \<open>play\<close> never writes \<open>position\<close>. The position is \<open>p0\<close> after construction, it is
  the same after \<open>play\<close> as before it, and no sequence of \<open>play\<close> and \<open>stop\<close> calls
  changes it; the first tick of the new run is what assigns it (by the selection of C3). A
  replay therefore does not move the position back to \<open>p0\<close> when \<open>play\<close> is called.
\<close>

lemma quiet_run_position:
  "\<forall>c \<in> set cs. \<not> is_Heartbeat c \<Longrightarrow> position (curve (run cs w)) = position (curve w)"
proof (induction cs arbitrary: w)
  case Nil
  show ?case by simp
next
  case (Cons c cs)
  from Cons.prems have "\<not> is_Heartbeat c" by simp
  then have "position (curve (apply_call c w)) = position (curve w)"
    by (cases c) (simp_all add: play_position stop_position)
  moreover from Cons.prems have "position (curve (run cs (apply_call c w)))
      = position (curve (apply_call c w))"
    by (intro Cons.IH) simp
  ultimately show ?case by simp
qed

theorem play_never_writes_position:
  "position (curve (play callback w)) = position (curve w)
   \<and> position (curve (boot d ps)) = BezierPositions.p0 ps
   \<and> ((\<forall>c \<in> set cs. \<not> is_Heartbeat c) \<longrightarrow>
        position (curve (run cs w)) = position (curve w))
   \<and> (connection (curve w) = None \<and> heartbeat w = [] \<longrightarrow>
        position (curve (fire dt (play callback w))) =
          (case spec_select (p2 (curve w)) (p3 (curve w)) (t (curve (fire dt (play callback w))))
                  (p0 (curve w)) (p1 (curve w)) of
             Some v \<Rightarrow> v
           | None \<Rightarrow> position (curve w)))"
proof (intro conjI impI)
  show "position (curve (play callback w)) = position (curve w)"
    by (rule play_position)
  show "position (curve (boot d ps)) = BezierPositions.p0 ps"
    by (simp add: boot_def BezierCurve_new_def)
next
  assume "\<forall>c \<in> set cs. \<not> is_Heartbeat c"
  then show "position (curve (run cs w)) = position (curve w)"
    by (rule quiet_run_position)
next
  assume idle: "connection (curve w) = None \<and> heartbeat w = []"
  then have "heartbeat (play callback w) = [(next_connection w, callback)]"
    by (simp add: play_idle)
  then have "fire dt (play callback w) = handler callback dt (play callback w)"
    by (rule fire_running)
  then show "position (curve (fire dt (play callback w))) =
          (case spec_select (p2 (curve w)) (p3 (curve w)) (t (curve (fire dt (play callback w))))
                  (p0 (curve w)) (p1 (curve w)) of
             Some v \<Rightarrow> v
           | None \<Rightarrow> position (curve w))"
    using idle by (simp add: handler_curve reposition_eq play_idle advance_def split: option.split)
qed

theorem play_never_writes_position_witness:
  "position (curve (run [Play (Some ''done''), Heartbeat 1] (boot 1 scenario_positions)))
     = Vector3_new 0 50 0
   \<and> connection (curve (run [Play (Some ''done''), Heartbeat 1] (boot 1 scenario_positions)))
     = None
   \<and> heartbeat (run [Play (Some ''done''), Heartbeat 1] (boot 1 scenario_positions)) = []
   \<and> position (curve (run [Play (Some ''done''), Heartbeat 1, Play (Some ''again''), Stop]
        (boot 1 scenario_positions))) = Vector3_new 0 50 0
   \<and> position (curve (run [Play (Some ''done''), Heartbeat 1, Play (Some ''again''),
        Heartbeat (1/4)] (boot 1 scenario_positions))) = Vector3_new 0 (25/2) 0"
  using play_never_writes_position [of "Some ''again''"
      "run [Play (Some ''done''), Heartbeat 1] (boot 1 scenario_positions)"
      1 scenario_positions "[Play (Some ''again''), Stop]" "1/4"]
  by (simp add: model_defs)

text \<open>
  C8. \<open>stop\<close> sets the latch \<open>wantToStop\<close> and changes nothing else: the other fields of
  the animator, the signal's connections and the trace are as before, so \<open>stop\<close> does not
  unsubscribe. The run ends on the next tick: that tick advances \<open>t\<close> and assigns
  \<open>position\<close> exactly as a tick without the stop request does (at the advanced \<open>t\<close>, by the
  selection of C3), and then releases the subscription and calls the callback with
  \<open>false\<close>.
\<close>

theorem stop_only_sets_latch:
  "curve (stop w) = (curve w)\<lparr>wantToStop := True\<rparr>
   \<and> heartbeat (stop w) = heartbeat w
   \<and> next_connection (stop w) = next_connection w
   \<and> trace (stop w) = trace w
   \<and> (connection (curve w) = Some c \<longrightarrow>
        (let w' = handler callback dt (stop w)
         in connection (curve w') = None
            \<and> c \<notin> fst ` set (heartbeat w')
            \<and> trace w' = trace w @ Disconnected c #
                 (case callback of None \<Rightarrow> [] | Some f \<Rightarrow> [Called f False])
            \<and> t (curve w') = t (curve (handler callback dt w))
            \<and> position (curve w') = position (curve (handler callback dt w))
            \<and> position (curve w') =
                 (case spec_select (p2 (curve w)) (p3 (curve w)) (t (curve w'))
                         (p0 (curve w)) (p1 (curve w)) of
                    Some v \<Rightarrow> v
                  | None \<Rightarrow> position (curve w))))"
proof (intro conjI impI)
  assume live: "connection (curve w) = Some c"
  have live': "connection (curve (stop w)) = Some c" using live by (simp add: stop_def)
  have ends: "1 \<le> math_clamp (t (curve (stop w)) + dt / duration (curve (stop w))) 0 1
               \<or> wantToStop (curve (stop w))"
    by (simp add: stop_def)
  show "let w' = handler callback dt (stop w)
         in connection (curve w') = None
            \<and> c \<notin> fst ` set (heartbeat w')
            \<and> trace w' = trace w @ Disconnected c #
                 (case callback of None \<Rightarrow> [] | Some f \<Rightarrow> [Called f False])
            \<and> t (curve w') = t (curve (handler callback dt w))
            \<and> position (curve w') = position (curve (handler callback dt w))
            \<and> position (curve w') =
                 (case spec_select (p2 (curve w)) (p3 (curve w)) (t (curve w'))
                         (p0 (curve w)) (p1 (curve w)) of
                    Some v \<Rightarrow> v
                  | None \<Rightarrow> position (curve w))"
    unfolding Let_def handler_ends [OF ends live']
    by (auto simp add: stop_def handler_curve reposition_eq advance_def split: option.split)
qed (simp_all add: stop_def)

theorem stop_only_sets_latch_witness:
  "connection (curve (run [Play (Some ''done''), Heartbeat (1/4), Heartbeat (1/4)]
       (boot 1 scenario_positions))) = Some 0
   \<and> connection (curve (run [Play (Some ''done''), Heartbeat (1/4), Heartbeat (1/4), Stop]
       (boot 1 scenario_positions))) = Some 0
   \<and> position (curve (run [Play (Some ''done''), Heartbeat (1/4), Heartbeat (1/4), Stop]
       (boot 1 scenario_positions))) = Vector3_new 0 25 0
   \<and> run [Play (Some ''done''), Heartbeat (1/4), Heartbeat (1/4), Stop, Heartbeat (1/4)]
       (boot 1 scenario_positions)
     = \<lparr>curve = \<lparr>p0 = Vector3_new 0 0 0, p1 = Vector3_new 0 50 0, p2 = None, p3 = None,
                  t = 3/4, duration = 1, position = Vector3_new 0 (75/2) 0,
                  connection = None, wantToStop = True\<rparr>,
         heartbeat = [], next_connection = 1,
         trace = [Connected 0 (Some ''done''), Disconnected 0, Called ''done'' False]\<rparr>"
  using stop_only_sets_latch [of
      "run [Play (Some ''done''), Heartbeat (1/4), Heartbeat (1/4)] (boot 1 scenario_positions)"
      0 "Some ''done''" "1/4"]
  by (simp add: model_defs)

text \<open>
  C1. Each \<open>play\<close> that starts a run sets \<open>t\<close> to 0 and is specified to clear the stop
  latch before subscribing, so that a \<open>stop\<close> issued during a previous run or while idle
  does not end the new run. The code resets \<open>t\<close> but never writes \<open>wantToStop\<close> outside
  \<open>stop\<close>: \<open>play\<close> leaves the latch as it finds it. Run on the specification's scenario,
  a \<open>stop\<close> made while idle ends the run started afterwards on its first tick, at
  \<open>t = 1/4\<close>, with the callback called with \<open>false\<close>; and after a run ended by \<open>stop\<close>,
  the next run ends on its first tick in the same way.
\<close>

theorem stale_stop_ends_next_run:
  "wantToStop (curve (play callback w)) = wantToStop (curve w)
   \<and> wantToStop (curve (run [Stop, Play (Some ''done'')] (boot 1 scenario_positions)))
   \<and> run [Stop, Play (Some ''done''), Heartbeat (1/4)] (boot 1 scenario_positions)
       = \<lparr>curve = \<lparr>p0 = Vector3_new 0 0 0, p1 = Vector3_new 0 50 0, p2 = None, p3 = None,
                    t = 1/4, duration = 1, position = Vector3_new 0 (25/2) 0,
                    connection = None, wantToStop = True\<rparr>,
           heartbeat = [], next_connection = 1,
           trace = [Connected 0 (Some ''done''), Disconnected 0, Called ''done'' False]\<rparr>
   \<and> trace (run [Play (Some ''first''), Heartbeat (1/4), Stop, Heartbeat (1/4),
                 Play (Some ''second''), Heartbeat (1/4)] (boot 1 scenario_positions))
       = [Connected 0 (Some ''first''), Disconnected 0, Called ''first'' False,
          Connected 1 (Some ''second''), Disconnected 1, Called ''second'' False]"
  by (simp add: model_defs)

section \<open>The life cycle of a run\<close>

lemma finished_append: "finished xs \<Longrightarrow> finished ys \<Longrightarrow> finished (xs @ ys)"
  by (induction xs rule: finished.induct) simp_all

lemma finished_lifecycle: "finished xs \<Longrightarrow> lifecycle xs"
  by (induction xs rule: finished.induct) simp_all

lemma finished_then_connected: "finished xs \<Longrightarrow> lifecycle (xs @ [Connected c callback])"
  by (induction xs rule: finished.induct) simp_all

lemma tracked_idle:
  "connection (curve w) = None \<Longrightarrow> tracked w = (heartbeat w = [] \<and> finished (trace w))"
  by (simp add: tracked_def)

lemma tracked_running:
  "connection (curve w) = Some c \<Longrightarrow>
   tracked w = (\<exists>callback es. heartbeat w = [(c, callback)] \<and> trace w = es @ [Connected c callback]
                  \<and> finished es)"
  apply (simp add: tracked_def split: list.splits)
  apply (auto)
  apply (metis append_butlast_last_id)
  done

lemma tracked_iff:
  "tracked w =
     (connection (curve w) = None \<and> heartbeat w = [] \<and> finished (trace w)
      \<or> (\<exists>c callback es. connection (curve w) = Some c \<and> heartbeat w = [(c, callback)]
            \<and> trace w = es @ [Connected c callback] \<and> finished es))"
proof (cases "connection (curve w)")
  case None
  then show ?thesis by (simp add: tracked_idle)
next
  case (Some c)
  then show ?thesis by (simp add: tracked_running)
qed

lemma tracked_boot: "tracked (boot d ps)"
  by (simp add: tracked_iff boot_def BezierCurve_new_def)

lemma tracked_stop: "tracked w \<Longrightarrow> tracked (stop w)"
  by (simp add: tracked_iff stop_def)

lemma tracked_play: "tracked w \<Longrightarrow> tracked (play callback w)"
proof (cases "connection (curve w)")
  case None
  assume "tracked w"
  with None have "heartbeat w = []" "finished (trace w)" by (simp_all add: tracked_idle)
  then show ?thesis by (simp add: play_idle [OF None] tracked_iff)
next
  case (Some c)
  assume "tracked w"
  then show ?thesis by (simp add: play_running [OF Some])
qed

lemma tracked_fire: "tracked w \<Longrightarrow> tracked (fire dt w)"
proof (cases "connection (curve w)")
  case None
  assume "tracked w"
  with None have "heartbeat w = []" by (simp add: tracked_idle)
  with \<open>tracked w\<close> show ?thesis by (simp add: fire_idle)
next
  case (Some c)
  assume "tracked w"
  with Some obtain callback es where hb: "heartbeat w = [(c, callback)]"
    and tr: "trace w = es @ [Connected c callback]" and fin: "finished es"
    by (auto simp add: tracked_running)
  show ?thesis
  proof (cases "1 \<le> math_clamp (t (curve w) + dt / duration (curve w)) 0 1 \<or> wantToStop (curve w)")
    case True
    have "finished (es @ Connected c callback # Disconnected c #
            (case callback of None \<Rightarrow> [] | Some f \<Rightarrow> [Called f (\<not> wantToStop (curve w))]))"
      using fin by (intro finished_append) (simp_all split: option.splits)
    then show ?thesis
      by (simp add: fire_running [OF hb] handler_ends [OF True Some] tracked_iff hb tr)
  next
    case False
    show ?thesis
      using Some hb tr fin
      by (simp add: fire_running [OF hb] handler_continues [OF False] tracked_iff)
  qed
qed

lemma tracked_apply_call: "tracked w \<Longrightarrow> tracked (apply_call c w)"
  by (cases c) (simp_all add: tracked_play tracked_stop tracked_fire)

lemma tracked_run: "tracked w \<Longrightarrow> tracked (run cs w)"
  by (induction cs arbitrary: w) (simp_all add: tracked_apply_call)

lemma tracked_lifecycle: "tracked w \<Longrightarrow> lifecycle (trace w)"
proof (cases "connection (curve w)")
  case None
  assume "tracked w"
  with None show ?thesis by (simp add: tracked_idle finished_lifecycle)
next
  case (Some c)
  assume "tracked w"
  with Some show ?thesis by (auto simp add: tracked_running finished_then_connected)
qed


text \<open>
  C2. For a running animator, on the tick after whose update \<open>t \<ge> 1\<close> or the stop latch
  is set, the run ends: the connection is released first, the animator holds no connection
  any more, and then the callback given to that \<open>play\<close> call (if one was given) is called
  with \<open>endedNaturally = \<not> wantToStop\<close>. On any other tick nothing is released and
  nothing is called. Over every sequence of calls and ticks from the constructor the trace
  has the shape \<open>lifecycle\<close>: each subscription is followed by at most one call of a
  callback, its own, exactly one once its run has ended with a callback supplied, placed
  right after the release that ends the run.
\<close>

theorem run_ends_once:
  "(connection (curve w) = Some c \<longrightarrow>
      (let w' = handler callback dt w
       in if 1 \<le> t (curve w') \<or> wantToStop (curve w)
          then connection (curve w') = None
               \<and> heartbeat w' = filter (\<lambda>h. fst h \<noteq> c) (heartbeat w)
               \<and> c \<notin> fst ` set (heartbeat w')
               \<and> trace w' = trace w @ Disconnected c #
                    (case callback of
                       None \<Rightarrow> []
                     | Some f \<Rightarrow> [Called f (\<not> wantToStop (curve w))])
          else connection (curve w') = Some c
               \<and> heartbeat w' = heartbeat w
               \<and> trace w' = trace w))
   \<and> lifecycle (trace (run cs (boot d ps)))"
proof (intro conjI impI)
  assume live: "connection (curve w) = Some c"
  let ?end = "1 \<le> math_clamp (t (curve w) + dt / duration (curve w)) 0 1 \<or> wantToStop (curve w)"
  show "let w' = handler callback dt w
       in if 1 \<le> t (curve w') \<or> wantToStop (curve w)
          then connection (curve w') = None
               \<and> heartbeat w' = filter (\<lambda>h. fst h \<noteq> c) (heartbeat w)
               \<and> c \<notin> fst ` set (heartbeat w')
               \<and> trace w' = trace w @ Disconnected c #
                    (case callback of
                       None \<Rightarrow> []
                     | Some f \<Rightarrow> [Called f (\<not> wantToStop (curve w))])
          else connection (curve w') = Some c
               \<and> heartbeat w' = heartbeat w
               \<and> trace w' = trace w"
  proof (cases ?end)
    case True
    then show ?thesis
      unfolding Let_def handler_t by (auto simp add: handler_ends [OF True live])
  next
    case False
    then show ?thesis
      unfolding Let_def handler_t by (simp add: handler_continues [OF False] live)
  qed
next
  show "lifecycle (trace (run cs (boot d ps)))"
    by (intro tracked_lifecycle tracked_run tracked_boot)
qed

theorem run_ends_once_witness:
  "connection (curve (play (Some ''done'') (boot 1 scenario_positions))) = Some 0
   \<and> connection (curve (handler (Some ''done'') 1 (play (Some ''done'') (boot 1 scenario_positions))))
       = None
   \<and> heartbeat (handler (Some ''done'') 1 (play (Some ''done'') (boot 1 scenario_positions))) = []
   \<and> trace (handler (Some ''done'') 1 (play (Some ''done'') (boot 1 scenario_positions)))
       = [Connected 0 (Some ''done''), Disconnected 0, Called ''done'' True]
   \<and> lifecycle (trace (run [Play (Some ''done''), Heartbeat 1] (boot 1 scenario_positions)))"
  using run_ends_once [of "play (Some ''done'') (boot 1 scenario_positions)" 0 "Some ''done''" 1
      "[Play (Some ''done''), Heartbeat 1]" 1 scenario_positions]
  by (simp add: model_defs)

section \<open>Positions with p3 but without p2\<close>

lemma lopsided_position_fire:
  assumes "p2 (curve w) = None" and "p3 (curve w) = Some v"
  shows "position (curve (fire dt w)) = position (curve w)"
proof -
  have "p2 (curve w) = None \<Longrightarrow> p3 (curve w) = Some v \<Longrightarrow>
        position (curve (fold (\<lambda>h w. if h \<in> set (heartbeat w) then handler (snd h) dt w else w)
           hs w)) = position (curve w)" for hs
    by (induction hs arbitrary: w) (simp_all add: handler_position reposition_eq)
  with assms show ?thesis by (simp add: fire_def)
qed

lemma lopsided_position_run:
  assumes "p2 (curve w) = None" and "p3 (curve w) = Some v"
  shows "position (curve (run cs w)) = position (curve w)"
  using assms
proof (induction cs arbitrary: w)
  case Nil
  show ?case by simp
next
  case (Cons c cs)
  have same: "position (curve (apply_call c w)) = position (curve w)"
    using Cons.prems
    by (cases c) (simp_all add: play_position stop_position lopsided_position_fire)
  have "p2 (curve (apply_call c w)) = None" "p3 (curve (apply_call c w)) = Some v"
    using Cons.prems by (simp_all add: apply_call_fields)
  then have "position (curve (run cs (apply_call c w))) = position (curve (apply_call c w))"
    by (rule Cons.IH)
  with same show ?case by simp
qed


text \<open>
  C9. For an animator constructed with \<open>p3\<close> present and \<open>p2\<close> absent, in every state
  reachable from the constructor: the position is still the \<open>p0\<close> it was constructed
  with, and a tick leaves it unchanged; the tick still sets \<open>t\<close> to
  \<open>clamp(t + dt/duration, 0, 1)\<close>; and when after that \<open>t \<ge> 1\<close> or a stop was requested,
  the subscription is released and the callback is called with the usual value
  \<open>\<not> wantToStop\<close>, while on other ticks the run goes on.
\<close>

theorem lopsided_run_behaves_apart_from_position:
  "BezierPositions.p2 ps = None \<and> BezierPositions.p3 ps = Some v \<longrightarrow>
     position (curve (run cs (boot d ps))) = BezierPositions.p0 ps
     \<and> position (curve (handler callback dt (run cs (boot d ps))))
         = position (curve (run cs (boot d ps)))
     \<and> (0 < d \<longrightarrow>
          t (curve (handler callback dt (run cs (boot d ps))))
            = math_clamp (t (curve (run cs (boot d ps))) + dt / d) 0 1)
     \<and> (connection (curve (run cs (boot d ps))) = Some c \<longrightarrow>
          (let w = run cs (boot d ps); w' = handler callback dt w
           in if 1 \<le> t (curve w') \<or> wantToStop (curve w)
              then connection (curve w') = None
                   \<and> c \<notin> fst ` set (heartbeat w')
                   \<and> trace w' = trace w @ Disconnected c #
                        (case callback of
                           None \<Rightarrow> []
                         | Some f \<Rightarrow> [Called f (\<not> wantToStop (curve w))])
              else connection (curve w') = Some c
                   \<and> heartbeat w' = heartbeat w
                   \<and> trace w' = trace w))"
proof (intro impI conjI)
  assume shape: "BezierPositions.p2 ps = None \<and> BezierPositions.p3 ps = Some v"
  let ?w = "run cs (boot d ps) :: 'a world"
  have boot: "p2 (curve (boot d ps :: 'a world)) = None" "p3 (curve (boot d ps :: 'a world)) = Some v"
    using shape by (simp_all add: boot_def BezierCurve_new_def)
  then have now: "p2 (curve ?w) = None" "p3 (curve ?w) = Some v"
    by (simp_all add: run_fields)
  have "position (curve ?w) = position (curve (boot d ps :: 'a world))"
    using boot by (rule lopsided_position_run)
  then show "position (curve ?w) = BezierPositions.p0 ps"
    by (simp add: boot_def BezierCurve_new_def)
  show "position (curve (handler callback dt ?w)) = position (curve ?w)"
    using now by (simp add: handler_position reposition_eq)
  have "duration (curve ?w) = d"
    by (simp add: run_fields boot_def BezierCurve_new_def)
  then show "t (curve (handler callback dt ?w)) = math_clamp (t (curve ?w) + dt / d) 0 1"
    by (simp add: handler_t)
  assume live: "connection (curve ?w) = Some c"
  show "let w = ?w; w' = handler callback dt w
           in if 1 \<le> t (curve w') \<or> wantToStop (curve w)
              then connection (curve w') = None
                   \<and> c \<notin> fst ` set (heartbeat w')
                   \<and> trace w' = trace w @ Disconnected c #
                        (case callback of
                           None \<Rightarrow> []
                         | Some f \<Rightarrow> [Called f (\<not> wantToStop (curve w))])
              else connection (curve w') = Some c
                   \<and> heartbeat w' = heartbeat w
                   \<and> trace w' = trace w"
  proof (cases "1 \<le> math_clamp (t (curve ?w) + dt / duration (curve ?w)) 0 1 \<or> wantToStop (curve ?w)")
    case True
    then show ?thesis
      unfolding Let_def handler_t by (auto simp add: handler_ends [OF True live])
  next
    case False
    then show ?thesis
      unfolding Let_def handler_t by (simp add: handler_continues [OF False] live)
  qed
qed

theorem lopsided_run_behaves_apart_from_position_witness:
  "BezierPositions.p2 lopsided_positions = None
   \<and> BezierPositions.p3 lopsided_positions = Some (Vector3_new 9 9 9)
   \<and> connection (curve (run [Play (Some ''done''), Heartbeat (1/2)] (boot 1 lopsided_positions)))
       = Some 0
   \<and> position (curve (run [Play (Some ''done''), Heartbeat (1/2)] (boot 1 lopsided_positions)))
       = Vector3_new 0 0 0
   \<and> handler (Some ''done'') (3/4)
        (run [Play (Some ''done''), Heartbeat (1/2)] (boot 1 lopsided_positions))
     = \<lparr>curve = \<lparr>p0 = Vector3_new 0 0 0, p1 = Vector3_new 0 50 0, p2 = None,
                  p3 = Some (Vector3_new 9 9 9), t = 1, duration = 1,
                  position = Vector3_new 0 0 0, connection = None, wantToStop = False\<rparr>,
         heartbeat = [], next_connection = 1,
         trace = [Connected 0 (Some ''done''), Disconnected 0, Called ''done'' True]\<rparr>"
  using lopsided_run_behaves_apart_from_position [of lopsided_positions "Vector3_new 9 9 9"
      "[Play (Some ''done''), Heartbeat (1/2)]" 1 "Some ''done''" "3/4" 0]
  by (simp add: model_defs)

end
